theory Spec2Isabelle
  imports Complex_Main
begin

section \<open>Tensors\<close>

text \<open>
  The SEVIR skill score of \<^verbatim>\<open>examples/earthformer/sevir/helps.py\<close> works on
  paddle tensors. A tensor is its shape and its elements in row-major order; it is
  well formed when the number of elements is the product of the shape.
\<close>

datatype error =
    NotImplementedError
  | AssertionError
  | IndexError
  | KeyError
  | ZeroDivisionError
  | ValueError
  | TypeError

record 'a tensor =
  shape :: "nat list"
  data :: "'a list"

definition wf_tensor :: "'a tensor \<Rightarrow> bool" where
  "wf_tensor x = (length (data x) = prod_list (shape x))"

text \<open>
  An element of a float tensor is a not-a-number, an infinity or a finite value.
  Finite values are reals: rounding is not part of the model.
\<close>

datatype fval = NaN | NegInf | PosInf | Fin real

fun isnan :: "fval \<Rightarrow> bool" where
  "isnan NaN = True"
| "isnan _ = False"

text \<open>The comparison \<^verbatim>\<open>x >= T\<close> of a float with a finite number; false on a NaN.\<close>

fun fge :: "fval \<Rightarrow> real \<Rightarrow> bool" where
  "fge NaN T = False"
| "fge NegInf T = False"
| "fge PosInf T = True"
| "fge (Fin a) T = (T \<le> a)"

section \<open>Thresholding\<close>

text \<open>
  \<^verbatim>\<open>
  def _threshold(target, pred, T):
      t = (target >= T).astype('float32')
      p = (pred >= T).astype('float32')
      is_nan = paddle.logical_or(paddle.isnan(target), paddle.isnan(pred))
      t[is_nan] = 0
      p[is_nan] = 0
      return t, p
  \<close>
  The indicators hold the floats 0.0 and 1.0, written as the integers 0 and 1.
  The mask \<open>is_nan\<close> has the broadcast shape of both inputs and must index
  \<open>t\<close> and \<open>p\<close> alike, so inputs of two different shapes end in an error.
\<close>

definition astype_float32 :: "bool \<Rightarrow> int" where
  "astype_float32 b = (if b then 1 else 0)"

definition set_masked_zero :: "int list \<Rightarrow> bool list \<Rightarrow> int list" where
  "set_masked_zero xs msk = map2 (\<lambda>x m. if m then 0 else x) xs msk"

definition threshold :: "fval tensor \<Rightarrow> fval tensor \<Rightarrow> real \<Rightarrow> error + (int tensor \<times> int tensor)" where
  "threshold target pred T =
     (if shape target \<noteq> shape pred then Inl ValueError
      else
        let t = map (\<lambda>v. astype_float32 (fge v T)) (data target);
            p = map (\<lambda>v. astype_float32 (fge v T)) (data pred);
            is_nan = map2 (\<lambda>a b. isnan a \<or> isnan b) (data target) (data pred)
        in Inr (\<lparr>shape = shape target, data = set_masked_zero t is_nan\<rparr>,
                \<lparr>shape = shape pred, data = set_masked_zero p is_nan\<rparr>))"

section \<open>Reduction over axes\<close>

text \<open>
  \<open>indices s\<close> lists the multi-indices of a tensor of shape \<open>s\<close> in row-major
  order, so the element at position \<open>q\<close> of \<open>data x\<close> has the multi-index
  \<open>indices (shape x) ! q\<close>.
\<close>

fun indices :: "nat list \<Rightarrow> nat list list" where
  "indices [] = [[]]"
| "indices (n # ns) = concat (map (\<lambda>i. map ((#) i) (indices ns)) [0..<n])"

text \<open>
  \<^verbatim>\<open>paddle.sum(x, axis=dims)\<close> for a list of non-negative axes. An axis must be
  below the rank (0 is accepted on a rank-zero tensor). The kernel reduces every
  dimension when the list is empty, when the tensor has rank zero or when the list is as
  long as the rank; otherwise it reduces the listed dimensions. The result keeps the
  other dimensions in order, and each of its elements is the sum of the elements of
  \<open>x\<close> whose multi-index agrees with it on the kept dimensions.
\<close>

definition axis_ok :: "nat \<Rightarrow> nat \<Rightarrow> bool" where
  "axis_ok rank a = (if rank = 0 then a = 0 else a < rank)"

definition reduce_all :: "nat \<Rightarrow> nat list \<Rightarrow> bool" where
  "reduce_all rank axis = (axis = [] \<or> rank = 0 \<or> length axis = rank)"

definition kept_dims :: "nat \<Rightarrow> nat list \<Rightarrow> nat list" where
  "kept_dims rank axis =
     (if reduce_all rank axis then [] else filter (\<lambda>d. d \<notin> set axis) [0..<rank])"

definition paddle_sum :: "int tensor \<Rightarrow> nat list \<Rightarrow> error + int tensor" where
  "paddle_sum x axis =
     (let rank = length (shape x) in
      if \<not> list_all (axis_ok rank) axis then Inl ValueError
      else
        let kept = kept_dims rank axis;
            out_shape = map (\<lambda>d. shape x ! d) kept
        in Inr \<lparr>shape = out_shape,
                data = map (\<lambda>out. sum_list (map snd (filter (\<lambda>(idx, v). map (\<lambda>d. idx ! d) kept = out)
                                                 (zip (indices (shape x)) (data x)))))
                           (indices out_shape)\<rparr>)"

text \<open>
  The products \<^verbatim>\<open>t * p\<close>, \<^verbatim>\<open>t * (1 - p)\<close> and \<^verbatim>\<open>(1 - t) * p\<close> are taken
  elementwise on the two indicator tensors, which have one shape.
\<close>

definition tensor_mul :: "int tensor \<Rightarrow> int tensor \<Rightarrow> int tensor" where
  "tensor_mul a b = \<lparr>shape = shape a, data = map2 (*) (data a) (data b)\<rparr>"

definition one_minus :: "int tensor \<Rightarrow> int tensor" where
  "one_minus a = \<lparr>shape = shape a, data = map (\<lambda>v. 1 - v) (data a)\<rparr>"

section \<open>The skill score object\<close>

definition bind_err :: "'e + 'a \<Rightarrow> ('a \<Rightarrow> 'e + 'b) \<Rightarrow> 'e + 'b" where
  "bind_err r f = (case r of Inl e \<Rightarrow> Inl e | Inr v \<Rightarrow> f v)"

text \<open>
  The fields of \<^verbatim>\<open>SEVIRSkillScore\<close>. The three count tensors are allocated by
  \<^verbatim>\<open>paddle.zeros(shape=[len(self.threshold_list)])\<close>: rank one, written as a list
  whose length is the only dimension.
\<close>

record skill_score =
  layout :: string
  preprocess_type :: string
  threshold_list :: "int list"
  metrics_list :: "string list"
  eps :: real
  mode :: string
  seq_len :: "int option"
  hits :: "real list"
  misses :: "real list"
  fas :: "real list"
  keep_seq_len_dim :: bool

definition vshape :: "'a list \<Rightarrow> nat list" where
  "vshape v = [length v]"

text \<open>
  The local \<^verbatim>\<open>state_shape\<close> of \<^verbatim>\<open>__init__\<close>:
  \<^verbatim>\<open>(len(self.threshold_list),)\<close> in mode "0" and
  \<^verbatim>\<open>(len(self.threshold_list), self.seq_len)\<close> in modes "1" and "2". The
  constructor computes it after the counts are allocated and never uses it.
\<close>

definition state_shape :: "bool \<Rightarrow> int list \<Rightarrow> int \<Rightarrow> int list" where
  "state_shape keep thresholds sl =
     (if keep then [int (length thresholds), sl] else [int (length thresholds)])"

definition init ::
  "string \<Rightarrow> string \<Rightarrow> int option \<Rightarrow> string \<Rightarrow> int list \<Rightarrow> string list \<Rightarrow> real
   \<Rightarrow> error + skill_score" where
  "init lay md sl ptype thresholds metrics epsilon =
     (let zeros = replicate (length thresholds) 0;
          self = \<lparr>layout = lay, preprocess_type = ptype, threshold_list = thresholds,
                  metrics_list = metrics, eps = epsilon, mode = md, seq_len = sl,
                  hits = zeros, misses = zeros, fas = zeros, keep_seq_len_dim = False\<rparr>
      in if md = ''0'' then Inr (self\<lparr>keep_seq_len_dim := False\<rparr>)
         else if md = ''1'' \<or> md = ''2'' then
           (case sl of None \<Rightarrow> Inl AssertionError
            | Some n \<Rightarrow> Inr (self\<lparr>keep_seq_len_dim := True\<rparr>))
         else Inl NotImplementedError)"

subsection \<open>Metrics\<close>

text \<open>
  A float division: a zero divisor gives a NaN or an infinity, written \<open>None\<close>.
  Sums and quotients of non-finite values stay non-finite.
\<close>

definition fdiv :: "real \<Rightarrow> real \<Rightarrow> real option" where
  "fdiv a b = (if b = 0 then None else Some (a / b))"

definition fadd :: "real option \<Rightarrow> real option \<Rightarrow> real option" where
  "fadd a b = (case a of None \<Rightarrow> None | Some x \<Rightarrow> map_option (\<lambda>y. x + y) b)"

text \<open>An elementwise operator on two rank-one tensors, with paddle's broadcasting.\<close>

definition vec_op :: "('a \<Rightarrow> 'b \<Rightarrow> 'c) \<Rightarrow> 'a list \<Rightarrow> 'b list \<Rightarrow> error + 'c list" where
  "vec_op f xs ys =
     (if length xs = length ys then Inr (map2 f xs ys)
      else if length xs = 1 then Inr (map (f (hd xs)) ys)
      else if length ys = 1 then Inr (map (\<lambda>x. f x (hd ys)) xs)
      else Inl ValueError)"

definition add_scalar :: "real list \<Rightarrow> real \<Rightarrow> real list" where
  "add_scalar xs c = map (\<lambda>x. x + c) xs"

definition pod :: "real list \<Rightarrow> real list \<Rightarrow> real list \<Rightarrow> real \<Rightarrow> error + real option list" where
  "pod h m f e =
     bind_err (vec_op (+) h m) (\<lambda>hm. vec_op fdiv h (add_scalar hm e))"

definition sucr :: "real list \<Rightarrow> real list \<Rightarrow> real list \<Rightarrow> real \<Rightarrow> error + real option list" where
  "sucr h m f e =
     bind_err (vec_op (+) h f) (\<lambda>hf. vec_op fdiv h (add_scalar hf e))"

definition csi :: "real list \<Rightarrow> real list \<Rightarrow> real list \<Rightarrow> real \<Rightarrow> error + real option list" where
  "csi h m f e =
     bind_err (vec_op (+) h m) (\<lambda>hm.
     bind_err (vec_op (+) hm f) (\<lambda>hmf. vec_op fdiv h (add_scalar hmf e)))"

text \<open>
  \<^verbatim>\<open>
  bias = (hits + fas) / (hits + misses + eps)
  logbias = paddle.pow(bias / paddle.log(paddle.to_tensor(2.0)), 2.0)
  return logbias
  \<close>
\<close>

definition bias :: "real list \<Rightarrow> real list \<Rightarrow> real list \<Rightarrow> real \<Rightarrow> error + real option list" where
  "bias h m f e =
     bind_err (vec_op (+) h f) (\<lambda>hf.
     bind_err (vec_op (+) h m) (\<lambda>hm.
     bind_err (vec_op fdiv hf (add_scalar hm e)) (\<lambda>b.
       Inr (map (map_option (\<lambda>v. (v / ln 2) ^ 2)) b))))"

text \<open>The spec's reading of the bias metric: the square of \<open>log(bias) / log(2)\<close>.\<close>

definition bias_spec :: "real \<Rightarrow> real \<Rightarrow> real \<Rightarrow> real \<Rightarrow> real option" where
  "bias_spec h m f e = map_option (\<lambda>b. (ln b / ln 2) ^ 2) (fdiv (h + f) (h + m + e))"

subsection \<open>Counting hits, misses and false alarms\<close>

text \<open>\<^verbatim>\<open>str.find\<close>: the first position of a character, or -1.\<close>

fun str_find :: "string \<Rightarrow> char \<Rightarrow> int" where
  "str_find [] c = - 1"
| "str_find (x # xs) c =
     (if x = c then 0 else (let r = str_find xs c in if r < 0 then - 1 else r + 1))"

text \<open>\<^verbatim>\<open>list.pop(i)\<close>: a negative index counts from the end.\<close>

definition list_pop :: "'a list \<Rightarrow> int \<Rightarrow> error + 'a list" where
  "list_pop xs i =
     (let n = int (length xs); j = (if i < 0 then i + n else i)
      in if 0 \<le> j \<and> j < n then Inr (take (nat j) xs @ drop (Suc (nat j)) xs)
         else Inl IndexError)"

text \<open>
  \<^verbatim>\<open>
  seq_dim = self.layout.find('T')
  self._hits_misses_fas_reduce_dims = list(range(len(self.layout)))
  if self.keep_seq_len_dim:
      self._hits_misses_fas_reduce_dims.pop(seq_dim)
  \<close>
  The property caches the list before \<^verbatim>\<open>pop\<close> and no method reassigns
  \<open>layout\<close> or \<open>keep_seq_len_dim\<close>. The cache is not part of the model, which
  computes the list at every access: the two differ only for the empty layout in modes
  "1" and "2", where the first access raises at \<^verbatim>\<open>pop\<close> and leaves the empty
  list cached.
\<close>

definition hits_misses_fas_reduce_dims :: "skill_score \<Rightarrow> error + nat list" where
  "hits_misses_fas_reduce_dims self =
     (let seq_dim = str_find (layout self) CHR ''T'';
          dims = [0..<length (layout self)]
      in if keep_seq_len_dim self then list_pop dims seq_dim else Inr dims)"

text \<open>
  \<^verbatim>\<open>
  t, p = _threshold(target, pred, threshold)
  hits = paddle.sum(t * p, axis=self.hits_misses_fas_reduce_dims).astype('int32')
  misses = paddle.sum(t * (1 - p), axis=self.hits_misses_fas_reduce_dims).astype('int32')
  fas = paddle.sum((1 - t) * p, axis=self.hits_misses_fas_reduce_dims).astype('int32')
  \<close>
  The sums of indicator values are integers and are added exactly here: the rounding of
  a float32 sum beyond \<open>2^24\<close> and the range of \<^verbatim>\<open>int32\<close> are outside the model.
\<close>

definition calc_seq_hits_misses_fas ::
  "skill_score \<Rightarrow> fval tensor \<Rightarrow> fval tensor \<Rightarrow> int
   \<Rightarrow> error + (int tensor \<times> int tensor \<times> int tensor)" where
  "calc_seq_hits_misses_fas self pred target thr =
     bind_err (threshold target pred (real_of_int thr)) (\<lambda>(t, p).
     bind_err (hits_misses_fas_reduce_dims self) (\<lambda>dims.
     bind_err (paddle_sum (tensor_mul t p) dims) (\<lambda>h.
     bind_err (paddle_sum (tensor_mul t (one_minus p)) dims) (\<lambda>m.
     bind_err (paddle_sum (tensor_mul (one_minus t) p) dims) (\<lambda>f.
       Inr (h, m, f))))))"

subsection \<open>Accumulation\<close>

text \<open>
  \<^verbatim>\<open>
  def preprocess(self, pred, target):
      if self.preprocess_type == "sevir":
          pred = SEVIRDataset.process_data_dict_back(...)['vil']
          target = SEVIRDataset.process_data_dict_back(...)['vil']
      else:
          raise NotImplementedError
      return pred, target
  \<close>
  The back-normalisation \<open>back\<close> belongs to the dataset and is a parameter here.
\<close>

definition preprocess ::
  "skill_score \<Rightarrow> (fval tensor \<Rightarrow> fval tensor) \<Rightarrow> fval tensor \<Rightarrow> fval tensor
   \<Rightarrow> error + (fval tensor \<times> fval tensor)" where
  "preprocess self back pred target =
     (if preprocess_type self = ''sevir'' then Inr (back pred, back target)
      else Inl NotImplementedError)"

text \<open>
  The counts are stored in float32 tensors. \<open>f32_round\<close> rounds a real to the nearest
  float32 value, ties to the even significand: the spacing of the float32 values around
  \<open>x\<close> is \<open>f32_ulp x\<close>, with 24 significant bits. Stored counts are 0 or at least 1
  and stay far below the largest float32 value, so the subnormal range and the overflow
  to infinity are not part of the model.
\<close>

definition round_half_even :: "real \<Rightarrow> int" where
  "round_half_even r =
     (let f = \<lfloor>r\<rfloor>
      in if r - real_of_int f < 1 / 2 then f
         else if 1 / 2 < r - real_of_int f then f + 1
         else if even f then f else f + 1)"

definition f32_ulp :: "real \<Rightarrow> real" where
  "f32_ulp x = 2 powr (real_of_int \<lfloor>log 2 \<bar>x\<bar>\<rfloor> - 23)"

definition f32_round :: "real \<Rightarrow> real" where
  "f32_round x = f32_ulp x * real_of_int (round_half_even (x / f32_ulp x))"

text \<open>
  The float32 sum of a stored count and an int32 batch count: the batch count is cast to
  float32 and the sum is rounded to float32.
\<close>

definition f32_add :: "real \<Rightarrow> int \<Rightarrow> real" where
  "f32_add a c = f32_round (a + f32_round (real_of_int c))"


text \<open>
  \<^verbatim>\<open>self.hits[i] += hits\<close> on a rank-one state tensor \<open>x\<close>: the slot
  \<open>x[i]\<close> is one element, the sum \<open>x[i] + v\<close> has the shape of \<open>v\<close>, and it is
  stored back into the slot. A value of one element is added to the slot in float32. A
  value with no element stores nothing and leaves the slot as it is. A value with two or
  more elements does not fit the slot and the assignment raises.
\<close>

definition iadd_item :: "real list \<Rightarrow> nat \<Rightarrow> int tensor \<Rightarrow> error + real list" where
  "iadd_item x i v =
     (if length x \<le> i then Inl IndexError
      else case data v of
             [] \<Rightarrow> Inr x
           | [c] \<Rightarrow> Inr (x[i := f32_add (x ! i) c])
           | _ \<Rightarrow> Inl ValueError)"

text \<open>
  \<^verbatim>\<open>
  for i, threshold in enumerate(self.threshold_list):
      hits, misses, fas = self.calc_seq_hits_misses_fas(pred, target, threshold)
      self.hits[i] += hits
      self.misses[i] += misses
      self.fas[i] += fas
  \<close>
  The loop returns the object as the statements left it, and the error that stopped
  it, if any.
\<close>

fun accumulate ::
  "skill_score \<Rightarrow> fval tensor \<Rightarrow> fval tensor \<Rightarrow> nat \<Rightarrow> int list
   \<Rightarrow> skill_score \<times> error option" where
  "accumulate self pred target i [] = (self, None)"
| "accumulate self pred target i (thr # rest) =
     (case calc_seq_hits_misses_fas self pred target thr of
        Inl e \<Rightarrow> (self, Some e)
      | Inr (h, m, f) \<Rightarrow>
          (case iadd_item (hits self) i h of
             Inl e \<Rightarrow> (self, Some e)
           | Inr hs \<Rightarrow>
               (case iadd_item (misses self) i m of
                  Inl e \<Rightarrow> (self\<lparr>hits := hs\<rparr>, Some e)
                | Inr ms \<Rightarrow>
                    (case iadd_item (fas self) i f of
                       Inl e \<Rightarrow> (self\<lparr>hits := hs, misses := ms\<rparr>, Some e)
                     | Inr fs \<Rightarrow>
                         accumulate (self\<lparr>hits := hs, misses := ms, fas := fs\<rparr>)
                           pred target (Suc i) rest))))"

subsection \<open>Scores\<close>

text \<open>
  A value stored in the returned dictionary: a Python float or a rank-one numpy array.
  The keys of the dictionary are the thresholds and the string \<^verbatim>\<open>"avg"\<close>.
\<close>

datatype pyval = Scalar "real option" | Array "real option list"

datatype key = Thr int | Avg

type_synonym scores = "key \<rightharpoonup> (string \<rightharpoonup> pyval)"

definition metrics_dict ::
  "string \<Rightarrow> (real list \<Rightarrow> real list \<Rightarrow> real list \<Rightarrow> real \<Rightarrow> error + real option list) option" where
  "metrics_dict name =
     (if name = ''pod'' then Some pod
      else if name = ''csi'' then Some csi
      else if name = ''sucr'' then Some sucr
      else if name = ''bias'' then Some bias
      else None)"

text \<open>\<^verbatim>\<open>np.zeros((self.seq_len,))\<close>\<close>

definition np_zeros :: "int option \<Rightarrow> error + pyval" where
  "np_zeros n =
     (case n of None \<Rightarrow> Inl TypeError
      | Some k \<Rightarrow> if k < 0 then Inl ValueError else Inr (Array (replicate (nat k) (Some 0))))"

text \<open>\<^verbatim>\<open>np.mean(v).item()\<close>; the mean of an empty array is a NaN.\<close>

definition np_mean :: "pyval \<Rightarrow> real option" where
  "np_mean v =
     (case v of Scalar s \<Rightarrow> s
      | Array xs \<Rightarrow> if xs = [] then None
                    else map_option (\<lambda>t. t / real (length xs)) (foldr fadd xs (Some 0)))"

text \<open>\<^verbatim>\<open>score_avg += score\<close>\<close>

definition iadd_score :: "pyval \<Rightarrow> real option \<Rightarrow> pyval" where
  "iadd_score avg s =
     (case avg of Scalar a \<Rightarrow> Scalar (fadd a s)
      | Array xs \<Rightarrow> Array (map (\<lambda>a. fadd a s) xs))"

text \<open>
  \<^verbatim>\<open>score_avg /= len(self.threshold_list)\<close>: a Python number divided by zero
  raises, a numpy array divided by zero becomes non-finite.
\<close>

definition idiv_len :: "pyval \<Rightarrow> nat \<Rightarrow> error + pyval" where
  "idiv_len avg n =
     (case avg of
        Scalar a \<Rightarrow> if n = 0 then Inl ZeroDivisionError
                    else Inr (Scalar (map_option (\<lambda>t. t / real n) a))
      | Array xs \<Rightarrow> if n = 0 then Inr (Array (map (\<lambda>_. None) xs))
                    else Inr (Array (map (map_option (\<lambda>t. t / real n)) xs)))"

text \<open>
  \<^verbatim>\<open>
  if self.mode in ("0", "1"):  ... = v
  elif self.mode in ("2",):    ... = np.mean(v).item()
  else:                        raise NotImplementedError
  \<close>
\<close>

definition by_mode :: "string \<Rightarrow> pyval \<Rightarrow> error + pyval" where
  "by_mode md v =
     (if md = ''0'' \<or> md = ''1'' then Inr v
      else if md = ''2'' then Inr (Scalar (np_mean v))
      else Inl NotImplementedError)"

text \<open>The loop over the thresholds for one metric (lines 189 to 200).\<close>

fun score_loop ::
  "string \<Rightarrow> string \<Rightarrow> real option list \<Rightarrow> nat \<Rightarrow> int list \<Rightarrow> scores \<Rightarrow> pyval
   \<Rightarrow> error + (scores \<times> pyval)" where
  "score_loop md metric sc i [] ret score_avg = Inr (ret, score_avg)"
| "score_loop md metric sc i (thr # rest) ret score_avg =
     (if length sc \<le> i then Inl IndexError
      else
        let score = sc ! i in
        case by_mode md (Scalar score) of
          Inl e \<Rightarrow> Inl e
        | Inr v \<Rightarrow>
            (case ret (Thr thr) of
               None \<Rightarrow> Inl KeyError
             | Some entry \<Rightarrow>
                 score_loop md metric sc (Suc i) rest
                   (ret(Thr thr \<mapsto> entry(metric \<mapsto> v))) (iadd_score score_avg score)))"

text \<open>The loop over the metrics (lines 180 to 207).\<close>

fun metrics_loop :: "skill_score \<Rightarrow> string list \<Rightarrow> scores \<Rightarrow> error + scores" where
  "metrics_loop self [] ret = Inr ret"
| "metrics_loop self (metric # rest) ret =
     bind_err (if keep_seq_len_dim self then np_zeros (seq_len self) else Inr (Scalar (Some 0)))
       (\<lambda>score_avg.
     case metrics_dict metric of
       None \<Rightarrow> Inl KeyError
     | Some fn \<Rightarrow>
     bind_err (fn (hits self) (misses self) (fas self) (eps self)) (\<lambda>sc.
     bind_err (score_loop (mode self) metric sc 0 (threshold_list self) ret score_avg)
       (\<lambda>(ret1, avg1).
     bind_err (idiv_len avg1 (length (threshold_list self))) (\<lambda>avg2.
     bind_err (by_mode (mode self) avg2) (\<lambda>v.
     case ret1 Avg of
       None \<Rightarrow> Inl KeyError
     | Some entry \<Rightarrow> metrics_loop self rest (ret1(Avg \<mapsto> entry(metric \<mapsto> v))))))))"

text \<open>
  \<^verbatim>\<open>
  ret = {}
  for threshold in self.threshold_list:
      ret[threshold] = {}
  ret["avg"] = {}
  \<close>
\<close>

definition empty_scores :: "int list \<Rightarrow> scores" where
  "empty_scores thresholds =
     (fold (\<lambda>thr ret. ret(Thr thr \<mapsto> Map.empty)) thresholds Map.empty)(Avg \<mapsto> Map.empty)"

definition aggregate :: "skill_score \<Rightarrow> error + scores" where
  "aggregate self = metrics_loop self (metrics_list self) (empty_scores (threshold_list self))"

text \<open>
  \<^verbatim>\<open>compute\<close>: preprocess, accumulate, aggregate. The result is the object after
  the call together with the returned dictionary or the exception raised.
\<close>

definition compute ::
  "skill_score \<Rightarrow> (fval tensor \<Rightarrow> fval tensor) \<Rightarrow> fval tensor \<Rightarrow> fval tensor
   \<Rightarrow> skill_score \<times> (error + scores)" where
  "compute self back pred target =
     (case preprocess self back pred target of
        Inl e \<Rightarrow> (self, Inl e)
      | Inr (pred', target') \<Rightarrow>
          (case accumulate self pred' target' 0 (threshold_list self) of
             (self', Some e) \<Rightarrow> (self', Inl e)
           | (self', None) \<Rightarrow> (self', aggregate self')))"

subsection \<open>Counts stated on the indicators\<close>





section \<open>The FNO network\<close>

text \<open>
  \<^verbatim>\<open>FNONet\<close> of \<^verbatim>\<open>ppsci/arch/tfnonet.py\<close>. The layers come from
  \<^verbatim>\<open>ppsci.arch.fno_block\<close> and \<^verbatim>\<open>concat_to_tensor\<close> from the base class; they
  are fields of the network here, functions on tensors of an arbitrary type. A domain
  padding is its \<^verbatim>\<open>pad\<close> and its \<^verbatim>\<open>unpad\<close>.
\<close>

record ('x, 't) fnonet =
  input_keys :: "string list"
  output_keys :: "string list"
  n_layers :: int
  lifting :: "'t \<Rightarrow> 't"
  domain_padding :: "(('t \<Rightarrow> 't) \<times> ('t \<Rightarrow> 't)) option"
  fno_blocks :: "'t \<Rightarrow> nat \<Rightarrow> 't"
  projection :: "'t \<Rightarrow> 't"
  concat_to_tensor :: "'x \<Rightarrow> string list \<Rightarrow> 't"

text \<open>
  \<^verbatim>\<open>
  if domain_padding is not None and (
      (isinstance(domain_padding, list) and sum(domain_padding) > 0)
      or (isinstance(domain_padding, (float, int)) and domain_padding > 0)
  ):
      self.domain_padding = fno_block.DomainPadding(
          domain_padding=domain_padding, padding_mode=domain_padding_mode)
  else:
      self.domain_padding = None
  \<close>
\<close>

datatype padding_arg = PadNone | PadList "real list" | PadNumber real | PadOther

definition init_domain_padding ::
  "padding_arg \<Rightarrow> string \<Rightarrow> (padding_arg \<Rightarrow> string \<Rightarrow> 'p) \<Rightarrow> 'p option" where
  "init_domain_padding arg padding_mode DomainPadding =
     (case arg of
        PadNone \<Rightarrow> None
      | PadList xs \<Rightarrow> if 0 < sum_list xs then Some (DomainPadding arg padding_mode) else None
      | PadNumber v \<Rightarrow> if 0 < v then Some (DomainPadding arg padding_mode) else None
      | PadOther \<Rightarrow> None)"

text \<open>
  \<^verbatim>\<open>
  for index in range(self.n_layers):
      x = self.fno_blocks(x, index)
  \<close>
\<close>

function apply_blocks :: "('t \<Rightarrow> nat \<Rightarrow> 't) \<Rightarrow> nat \<Rightarrow> nat \<Rightarrow> 't \<Rightarrow> 't" where
  "apply_blocks blocks n index x =
     (if index < n then apply_blocks blocks n (Suc index) (blocks x index) else x)"
  by pat_completeness auto
termination
  by (relation "measure (\<lambda>(blocks, n, index, x). n - index)") auto

declare apply_blocks.simps [simp del]

text \<open>
  \<^verbatim>\<open>
  def forward(self, x):
      x = self.concat_to_tensor(x, self.input_keys)
      x = self.lifting(x)
      if self.domain_padding is not None:
          x = self.domain_padding.pad(x)
      for index in range(self.n_layers):
          x = self.fno_blocks(x, index)
      if self.domain_padding is not None:
          x = self.domain_padding.unpad(x)
      out = self.projection(x)
      return {self.output_keys[0]: out}
  \<close>
\<close>

definition forward :: "('x, 't) fnonet \<Rightarrow> 'x \<Rightarrow> error + (string \<rightharpoonup> 't)" where
  "forward self x =
     (let x0 = concat_to_tensor self x (input_keys self);
          x1 = lifting self x0;
          x2 = (case domain_padding self of None \<Rightarrow> x1 | Some (pad, unpad) \<Rightarrow> pad x1);
          x3 = apply_blocks (fno_blocks self) (nat (n_layers self)) 0 x2;
          x4 = (case domain_padding self of None \<Rightarrow> x3 | Some (pad, unpad) \<Rightarrow> unpad x3);
          out = projection self x4
      in case output_keys self of
           [] \<Rightarrow> Inl IndexError
         | k # _ \<Rightarrow> Inr (Map.empty(k \<mapsto> out)))"

section \<open>Thresholding and counting: properties\<close>

lemma set_masked_zero_nth:
  "length xs = length msk \<Longrightarrow> i < length xs \<Longrightarrow>
   set_masked_zero xs msk ! i = (if msk ! i then 0 else xs ! i)"
  by (simp add: set_masked_zero_def)

lemma set_masked_zero_length:
  "length (set_masked_zero xs msk) = min (length xs) (length msk)"
  by (simp add: set_masked_zero_def)

text \<open>
  C3. For target and prediction tensors of one shape and every threshold \<open>T\<close>,
  thresholding returns two indicator tensors of that shape. At a position where either
  input is a NaN both indicators are 0; at every other position an indicator is 1 when
  its input is at least \<open>T\<close> and 0 otherwise.
\<close>

theorem threshold_indicators:
  assumes "wf_tensor target" and "wf_tensor pred" and "shape target = shape pred"
  shows "\<exists>t p. threshold target pred T = Inr (t, p)
           \<and> shape t = shape target \<and> shape p = shape pred
           \<and> wf_tensor t \<and> wf_tensor p
           \<and> (\<forall>i < length (data target).
                 (if isnan (data target ! i) \<or> isnan (data pred ! i)
                  then data t ! i = 0 \<and> data p ! i = 0
                  else data t ! i = (if fge (data target ! i) T then 1 else 0)
                     \<and> data p ! i = (if fge (data pred ! i) T then 1 else 0)))"
proof -
  have len: "length (data target) = length (data pred)"
    using assms by (simp add: wf_tensor_def)
  show ?thesis
    using assms len
    by (simp add: threshold_def Let_def wf_tensor_def set_masked_zero_length
        set_masked_zero_nth astype_float32_def)
qed

theorem threshold_indicators_witness:
  "wf_tensor \<lparr>shape = [3], data = [Fin 20, NaN, Fin 5]\<rparr>
   \<and> wf_tensor \<lparr>shape = [3], data = [Fin 10, Fin 30, PosInf]\<rparr>
   \<and> threshold \<lparr>shape = [3], data = [Fin 20, NaN, Fin 5]\<rparr>
        \<lparr>shape = [3], data = [Fin 10, Fin 30, PosInf]\<rparr> 16
      = Inr (\<lparr>shape = [3], data = [1, 0, 0]\<rparr>, \<lparr>shape = [3], data = [0, 0, 1]\<rparr>)"
  using threshold_indicators [of "\<lparr>shape = [3], data = [Fin 20, NaN, Fin 5]\<rparr>"
      "\<lparr>shape = [3], data = [Fin 10, Fin 30, PosInf]\<rparr>" 16]
  by (simp add: wf_tensor_def threshold_def set_masked_zero_def astype_float32_def)












lemma init_fields:
  assumes "init lay md sl ptype thresholds metrics epsilon = Inr self"
  shows "layout self = lay" and "keep_seq_len_dim self = (md \<noteq> ''0'')"
    and "md = ''0'' \<or> md = ''1'' \<or> md = ''2''"
    and "threshold_list self = thresholds" and "metrics_list self = metrics"
    and "eps self = epsilon" and "mode self = md" and "seq_len self = sl"
    and "preprocess_type self = ptype"
    and "hits self = replicate (length thresholds) 0"
    and "misses self = replicate (length thresholds) 0"
    and "fas self = replicate (length thresholds) 0"
  using assms by (auto simp: init_def Let_def split: if_splits option.splits)




lemma calc_example:
  "calc_seq_hits_misses_fas
     \<lparr>layout = ''NT'', preprocess_type = ''sevir'', threshold_list = [16],
      metrics_list = [''csi''], eps = 1 / 10000, mode = ''1'', seq_len = Some 2,
      hits = [0], misses = [0], fas = [0], keep_seq_len_dim = True\<rparr>
     \<lparr>shape = [2, 2], data = [Fin 20, Fin 3, NaN, Fin 30]\<rparr>
     \<lparr>shape = [2, 2], data = [Fin 20, Fin 30, Fin 20, Fin 3]\<rparr> 16
   = Inr (\<lparr>shape = [2], data = [1, 0]\<rparr>, \<lparr>shape = [2], data = [0, 1]\<rparr>,
          \<lparr>shape = [2], data = [0, 1]\<rparr>)"
  by code_simp












section \<open>Metrics and state: properties\<close>

lemma map2_nth_upt:
  "length ys = length xs \<Longrightarrow> map2 g xs ys = map (\<lambda>i. g (xs ! i) (ys ! i)) [0..<length xs]"
  by (rule nth_equalityI) simp_all

lemma vec_op_same_length:
  "length ys = length xs \<Longrightarrow> vec_op g xs ys = Inr (map (\<lambda>i. g (xs ! i) (ys ! i)) [0..<length xs])"
  by (simp add: vec_op_def map2_nth_upt)

text \<open>
  C5. For count tensors of one shape and every \<open>eps\<close>, the metric functions return,
  element by element, POD = hits / (hits + misses + eps),
  SUCR = hits / (hits + fas + eps) and CSI = hits / (hits + misses + fas + eps); an
  element whose denominator is zero is not finite.
\<close>

theorem pod_sucr_csi_formulas:
  assumes "length m = length h" and "length f = length h"
  shows "pod h m f e = Inr (map (\<lambda>i. if h ! i + m ! i + e = 0 then None
                                     else Some (h ! i / (h ! i + m ! i + e))) [0..<length h])
       \<and> sucr h m f e = Inr (map (\<lambda>i. if h ! i + f ! i + e = 0 then None
                                     else Some (h ! i / (h ! i + f ! i + e))) [0..<length h])
       \<and> csi h m f e = Inr (map (\<lambda>i. if h ! i + m ! i + f ! i + e = 0 then None
                                     else Some (h ! i / (h ! i + m ! i + f ! i + e))) [0..<length h])"
  using assms
  by (simp add: pod_def sucr_def csi_def bind_err_def vec_op_same_length add_scalar_def fdiv_def)

theorem pod_sucr_csi_formulas_witness:
  "length [1, 0 :: real] = length [2, 0 :: real] \<and> length [1, 0 :: real] = length [2, 0 :: real]
   \<and> pod [2, 0] [1, 0] [1, 0] 0 = Inr [Some (2 / 3), None]
   \<and> sucr [2, 0] [1, 0] [1, 0] 0 = Inr [Some (2 / 3), None]
   \<and> csi [2, 0] [1, 0] [1, 0] 0 = Inr [Some (1 / 2), None]"
  using pod_sucr_csi_formulas [of "[1, 0]" "[2, 0]" "[1, 0]" 0]
  by (simp add: upt_rec)

lemma ln_20000_20001: "\<bar>ln (20000 / 20001 :: real)\<bar> < 20000 / 20001"
proof -
  have "ln (20001 / 20000 :: real) \<le> 20001 / 20000 - 1"
    by (rule ln_le_minus_one) simp
  moreover have "ln (20000 / 20001 :: real) = - ln (20001 / 20000)"
    using ln_div [of 20000 "20001 :: real"] ln_div [of 20001 "20000 :: real"] by simp
  moreover have "ln (20000 / 20001 :: real) < 0"
    by simp
  ultimately show ?thesis by simp
qed

text \<open>
  C2. The claim reads the bias metric as the square of \<open>log(bias) / log(2)\<close>. The code
  squares \<open>bias / log(2)\<close> and takes no logarithm of the bias: with one hit, one miss,
  one false alarm and \<open>eps = 1e-4\<close> the two values differ.
\<close>

theorem bias_is_not_log_bias:
  "bias [1] [1] [1] (1 / 10000) = Inr [Some ((20000 / 20001 / ln 2) ^ 2)]
   \<and> bias_spec 1 1 1 (1 / 10000) = Some ((ln (20000 / 20001) / ln 2) ^ 2)
   \<and> (20000 / 20001 / ln 2) ^ 2 \<noteq> (ln (20000 / 20001) / ln (2 :: real)) ^ 2"
proof -
  have a: "bias [1] [1] [1] (1 / 10000) = Inr [Some ((20000 / 20001 / ln 2) ^ 2)]"
    by (simp add: bias_def bind_err_def vec_op_def add_scalar_def fdiv_def)
  have b: "bias_spec 1 1 1 (1 / 10000) = Some ((ln (20000 / 20001) / ln 2) ^ 2)"
    by (simp add: bias_spec_def fdiv_def)
  have "\<bar>ln (20000 / 20001 :: real)\<bar> \<noteq> \<bar>20000 / 20001\<bar>"
    using ln_20000_20001 by simp
  then have "(ln (20000 / 20001 :: real)) ^ 2 \<noteq> (20000 / 20001) ^ 2"
    by (simp only: power2_eq_iff abs_eq_iff) auto
  then have c: "(20000 / 20001 / ln 2) ^ 2 \<noteq> (ln (20000 / 20001) / ln (2 :: real)) ^ 2"
    by (simp add: power_divide divide_simps)
  show ?thesis using a b c by simp
qed

text \<open>
  C1. The claim gives the counts the shape (num_thresholds, seq_len) in modes "1" and
  "2". The constructor allocates them with shape (num_thresholds,) in every mode: with
  two thresholds, mode "1" and \<open>seq_len = 12\<close> each count tensor has shape [2], while
  the shape the constructor computes for it is [2, 12].
\<close>

theorem init_mode1_state_is_rank_one:
  "map_sum id (\<lambda>self. (vshape (hits self), vshape (misses self), vshape (fas self)))
     (init ''NTHW'' ''1'' (Some 12) ''sevir'' [16, 74] [''csi''] (1 / 10000))
   = Inr ([2], [2], [2])
   \<and> state_shape True [16, 74] 12 = [2, 12]"
  by (simp add: init_def Let_def vshape_def state_shape_def)

section \<open>The skill score object: properties\<close>

lemma metric_same_length:
  assumes "metrics_dict metric = Some fn" and "length m = length h" and "length f = length h"
  shows "\<exists>sc. fn h m f e = Inr sc \<and> length sc = length h"
proof -
  have "fn = pod \<or> fn = csi \<or> fn = sucr \<or> fn = bias"
    using assms(1) by (auto simp: metrics_dict_def split: if_splits)
  then show ?thesis
    using assms(2,3)
    by (auto simp: pod_def csi_def sucr_def bias_def bind_err_def vec_op_same_length add_scalar_def)
qed

text \<open>
  C7. For every mode string other than "0", "1" and "2" the constructor raises
  \<open>NotImplementedError\<close>; the mode dispatch of the aggregation raises it too, and so does
  the aggregation of an object with such a mode once it reaches the dispatch: a known
  first metric, a threshold, non-empty counts of one shape, and a sequence length when
  the sequence dimension is kept. The error is the result of the call.
\<close>

theorem unsupported_mode_raises:
  assumes "md \<noteq> ''0''" and "md \<noteq> ''1''" and "md \<noteq> ''2''"
  shows "init lay md sl ptype thresholds metrics epsilon = Inl NotImplementedError
       \<and> by_mode md v = Inl NotImplementedError
       \<and> (mode self = md \<and> metrics_list self = metric # rest \<and> metrics_dict metric \<noteq> None
            \<and> threshold_list self \<noteq> [] \<and> hits self \<noteq> []
            \<and> length (misses self) = length (hits self)
            \<and> length (fas self) = length (hits self)
            \<and> (keep_seq_len_dim self \<longrightarrow> (\<exists>n\<ge>0. seq_len self = Some n))
          \<longrightarrow> aggregate self = Inl NotImplementedError)"
proof (intro conjI impI)
  show "init lay md sl ptype thresholds metrics epsilon = Inl NotImplementedError"
    using assms by (simp add: init_def Let_def)
  show bm: "by_mode md v = Inl NotImplementedError" for v
    using assms by (simp add: by_mode_def)
  assume a: "mode self = md \<and> metrics_list self = metric # rest \<and> metrics_dict metric \<noteq> None
            \<and> threshold_list self \<noteq> [] \<and> hits self \<noteq> []
            \<and> length (misses self) = length (hits self)
            \<and> length (fas self) = length (hits self)
            \<and> (keep_seq_len_dim self \<longrightarrow> (\<exists>n\<ge>0. seq_len self = Some n))"
  then obtain fn where fn: "metrics_dict metric = Some fn" by auto
  obtain sc where sc: "fn (hits self) (misses self) (fas self) (eps self) = Inr sc"
    "length sc = length (hits self)"
    using metric_same_length [OF fn, of "misses self" "hits self" "fas self" "eps self"] a by auto
  obtain thr ts where ts: "threshold_list self = thr # ts"
    using a by (cases "threshold_list self") auto
  have "\<exists>avg0. (if keep_seq_len_dim self then np_zeros (seq_len self)
                 else Inr (Scalar (Some 0))) = Inr avg0"
  proof (cases "keep_seq_len_dim self")
    case True
    with a obtain n where "0 \<le> n" "seq_len self = Some n" by auto
    with True show ?thesis by (simp add: np_zeros_def)
  next
    case False
    then show ?thesis by simp
  qed
  then obtain avg0 where avg0:
    "(if keep_seq_len_dim self then np_zeros (seq_len self) else Inr (Scalar (Some 0))) = Inr avg0"
    by blast
  have "score_loop md metric sc 0 (thr # ts) ret avg0 = Inl NotImplementedError" for ret
    using sc(2) a bm by simp
  then show "aggregate self = Inl NotImplementedError"
    using a fn sc(1) ts avg0 by (simp add: aggregate_def bind_err_def)
qed

theorem unsupported_mode_raises_witness:
  "''3'' \<noteq> ''0'' \<and> ''3'' \<noteq> ''1'' \<and> ''3'' \<noteq> ''2''
   \<and> init ''NHWT'' ''3'' None ''sevir'' [16] [''csi''] (1 / 10000) = Inl NotImplementedError
   \<and> aggregate \<lparr>layout = ''NHWT'', preprocess_type = ''sevir'', threshold_list = [16],
         metrics_list = [''csi''], eps = 1 / 10000, mode = ''3'', seq_len = None,
         hits = [1], misses = [0], fas = [0], keep_seq_len_dim = False\<rparr>
       = Inl NotImplementedError"
proof -
  have m: "''3'' \<noteq> ''0''" "''3'' \<noteq> ''1''" "''3'' \<noteq> ''2''" by simp_all
  from unsupported_mode_raises [OF m, of "''NHWT''" None "''sevir''" "[16]" "[''csi'']" "1 / 10000"
      "Scalar None"
      "\<lparr>layout = ''NHWT'', preprocess_type = ''sevir'', threshold_list = [16],
         metrics_list = [''csi''], eps = 1 / 10000, mode = ''3'', seq_len = None,
         hits = [1], misses = [0], fas = [0], keep_seq_len_dim = False\<rparr>" "''csi''" "[]"]
  show ?thesis by (simp add: metrics_dict_def)
qed






lemma accumulate_step:
  assumes "accumulate self pred target i (thr # rest) = (self', r)"
  shows "(\<exists>e. r = Some e \<and> self' = self \<and> calc_seq_hits_misses_fas self pred target thr = Inl e)
       \<or> (\<exists>h m f. calc_seq_hits_misses_fas self pred target thr = Inr (h, m, f)
            \<and> ((\<exists>e. iadd_item (hits self) i h = Inl e \<and> r = Some e \<and> self' = self)
               \<or> (\<exists>hs. iadd_item (hits self) i h = Inr hs
                    \<and> ((\<exists>e. iadd_item (misses self) i m = Inl e \<and> r = Some e
                             \<and> self' = self\<lparr>hits := hs\<rparr>)
                       \<or> (\<exists>ms. iadd_item (misses self) i m = Inr ms
                            \<and> ((\<exists>e. iadd_item (fas self) i f = Inl e \<and> r = Some e
                                     \<and> self' = self\<lparr>hits := hs, misses := ms\<rparr>)
                               \<or> (\<exists>fs. iadd_item (fas self) i f = Inr fs
                                    \<and> accumulate (self\<lparr>hits := hs, misses := ms, fas := fs\<rparr>)
                                         pred target (Suc i) rest = (self', r))))))))"
  using assms by (auto split: sum.splits prod.splits)

lemma list_all2_le_trans:
  "list_all2 (\<le>) xs ys \<Longrightarrow> list_all2 (\<le>) ys zs \<Longrightarrow> list_all2 (\<le>) xs (zs :: real list)"
  by (simp add: list_all2_conv_all_nth) (metis order_trans)


lemma calc_mode0_example:
  "calc_seq_hits_misses_fas
     \<lparr>layout = ''NT'', preprocess_type = ptype, threshold_list = [16],
      metrics_list = [''csi''], eps = 1 / 10000, mode = ''0'', seq_len = None,
      hits = hs, misses = ms, fas = fs, keep_seq_len_dim = False\<rparr>
     \<lparr>shape = [2, 2], data = [Fin 20, Fin 3, Fin 2, Fin 40]\<rparr>
     \<lparr>shape = [2, 2], data = [Fin 20, Fin 30, Fin 2, Fin 3]\<rparr> 16
   = Inr (\<lparr>shape = [], data = [1]\<rparr>, \<lparr>shape = [], data = [1]\<rparr>, \<lparr>shape = [], data = [1]\<rparr>)"
  by (simp add: calc_seq_hits_misses_fas_def bind_err_def threshold_def Let_def
      set_masked_zero_def astype_float32_def hits_misses_fas_reduce_dims_def paddle_sum_def
      axis_ok_def kept_dims_def reduce_all_def tensor_mul_def one_minus_def upt_rec)

lemma aggregate_mode0_example:
  "aggregate \<lparr>layout = ''NT'', preprocess_type = ''sevir'', threshold_list = [16],
      metrics_list = [''csi''], eps = 1 / 10000, mode = ''0'', seq_len = None,
      hits = [1], misses = [1], fas = [1], keep_seq_len_dim = False\<rparr>
   = Inr (Map.empty(Thr 16 \<mapsto> Map.empty(''csi'' \<mapsto> Scalar (Some (10000 / 30001))),
                    Avg \<mapsto> Map.empty(''csi'' \<mapsto> Scalar (Some (10000 / 30001)))))"
  by (simp add: aggregate_def empty_scores_def bind_err_def metrics_dict_def csi_def vec_op_def
      add_scalar_def fdiv_def by_mode_def iadd_score_def fadd_def idiv_len_def Let_def fun_upd_twist)

section \<open>Float32 addition: properties\<close>
lemma f32_ulp_pos: "0 < f32_ulp x"
  by (simp add: f32_ulp_def)

lemma round_half_even_int: "round_half_even (real_of_int k) = k"
  by (simp add: round_half_even_def)


lemma f32_round_multiple:
  assumes "x = f32_ulp x * real_of_int k"
  shows "f32_round x = x"
proof -
  have "x / f32_ulp x = real_of_int k"
    using assms f32_ulp_pos [of x] by (metis nonzero_mult_div_cancel_left less_irrefl)
  then show ?thesis
    using assms by (simp add: f32_round_def round_half_even_int)
qed

lemma floor_log_bounds:
  assumes "0 < x"
  shows "2 powr real_of_int \<lfloor>log 2 x\<rfloor> \<le> x" and "x < 2 powr (real_of_int \<lfloor>log 2 x\<rfloor> + 1)"
  using floor_log_eq_powr_iff [of x 2 "\<lfloor>log 2 x\<rfloor>"] assms by simp_all


lemma two_powr_int: "(2::real) powr real_of_int k = (if 0 \<le> k then 2 ^ nat k else inverse (2 ^ nat (- k)))"
  by (simp add: powr_real_of_int)

lemma f32_round_nat_exact:
  assumes "n \<le> 2 ^ 24"
  shows "f32_round (real n) = real n"
proof (cases "n = 0")
  case True
  then show ?thesis by (simp add: f32_round_def round_half_even_def)
next
  case False
  then have pos: "0 < real n" by simp
  define e where "e = \<lfloor>log 2 (real n)\<rfloor>"
  have lo: "2 powr real_of_int e \<le> real n" and hi: "real n < 2 powr (real_of_int e + 1)"
    using floor_log_bounds [OF pos] by (simp_all add: e_def)
  have e0: "0 \<le> e"
  proof -
    have "1 \<le> real n" using False by simp
    then have "0 \<le> log 2 (real n)" by simp
    then show ?thesis by (simp add: e_def)
  qed
  have e24: "e \<le> 24"
  proof (rule ccontr)
    assume "\<not> e \<le> 24"
    then have "25 \<le> e" by simp
    then have "(2::real) powr 25 \<le> 2 powr real_of_int e"
      by (intro powr_mono) simp_all
    with lo have "(2::real) ^ 25 \<le> real n" by simp
    moreover have "real n \<le> 2 ^ 24" using assms by (metis of_nat_le_iff of_nat_numeral of_nat_power)
    ultimately show False by simp
  qed
  have ulp: "f32_ulp (real n) = 2 powr (real_of_int e - 23)"
    by (simp add: f32_ulp_def e_def)
  show ?thesis
  proof (cases "e \<le> 23")
    case True
    define d where "d = nat (23 - e)"
    have "real_of_int e - 23 = - real d" using True by (simp add: d_def)
    then have u: "f32_ulp (real n) = inverse (2 ^ d)"
      by (simp add: ulp powr_minus powr_realpow)
    have "real n = f32_ulp (real n) * real_of_int (int n * 2 ^ d)"
      by (simp add: u)
    then show ?thesis by (rule f32_round_multiple)
  next
    case False
    with e24 have e: "e = 24" by simp
    have "(2::real) ^ 24 \<le> real n" using lo by (simp add: e)
    moreover have "real n \<le> 2 ^ 24" using assms by (metis of_nat_le_iff of_nat_numeral of_nat_power)
    ultimately have n: "real n = 2 ^ 24" by simp
    have u: "f32_ulp (real n) = 2" using ulp by (simp add: e)
    have "real n = f32_ulp (real n) * real_of_int (2 ^ 23)"
      unfolding u by (simp add: n)
    then show ?thesis by (rule f32_round_multiple)
  qed
qed




lemma f32_add_exact:
  assumes "0 \<le> c" and "real k + real_of_int c \<le> 16777216"
  shows "f32_add (real k) c = real k + real_of_int c"
proof -
  obtain n where n: "c = int n"
    using assms(1) by (metis nonneg_int_cases)
  have kn: "real (k + n) \<le> real (2 ^ 24)" using assms(2) by (simp add: n)
  then have "k + n \<le> 2 ^ 24" by (simp only: of_nat_le_iff)
  then have r2: "f32_round (real (k + n)) = real (k + n)" by (rule f32_round_nat_exact)
  have "n \<le> 2 ^ 24" using \<open>k + n \<le> 2 ^ 24\<close> by simp
  then have r1: "f32_round (real n) = real n" by (rule f32_round_nat_exact)
  have "f32_add (real k) c = f32_round (real k + f32_round (real n))"
    by (simp add: f32_add_def n)
  also have "\<dots> = f32_round (real (k + n))" by (simp add: r1)
  also have "\<dots> = real (k + n)" by (rule r2)
  also have "\<dots> = real k + real_of_int c" by (simp add: n)
  finally show ?thesis .
qed





lemma f32_add_0_1: "f32_add 0 1 = 1"
  using f32_add_exact [of 1 0] by simp

section \<open>Accumulation: properties\<close>
lemma iadd_item_Inr:
  assumes "iadd_item x i v = Inr x'"
  shows "i < length x"
    and "(data v = [] \<and> x' = x) \<or> (\<exists>c. data v = [c] \<and> x' = x[i := f32_add (x ! i) c])"
  using assms by (auto simp: iadd_item_def split: if_splits list.splits)

lemma iadd_item_frame:
  assumes "iadd_item x i v = Inr x'"
  shows "length x' = length x" and "\<forall>j. j \<noteq> i \<longrightarrow> x' ! j = x ! j"
  using iadd_item_Inr(2) [OF assms] by auto


lemma accumulate_frame:
  assumes "accumulate self pred target i thrs = (self', r)"
  shows "length (hits self') = length (hits self)
       \<and> length (misses self') = length (misses self)
       \<and> length (fas self') = length (fas self)
       \<and> (\<forall>j<i. hits self' ! j = hits self ! j \<and> misses self' ! j = misses self ! j
                 \<and> fas self' ! j = fas self ! j)
       \<and> self' = self\<lparr>hits := hits self', misses := misses self', fas := fas self'\<rparr>"
  using assms
proof (induction thrs arbitrary: self i)
  case Nil
  then show ?case by simp
next
  case (Cons thr rest)
  from accumulate_step [OF Cons.prems] show ?case
  proof (elim disjE exE conjE)
    fix e assume "self' = self"
    then show ?thesis by simp
  next
    fix h m f e assume "self' = self"
    then show ?thesis by simp
  next
    fix h m f hs e
    assume h: "iadd_item (hits self) i h = Inr hs" and s: "self' = self\<lparr>hits := hs\<rparr>"
    show ?thesis using iadd_item_frame [OF h] s by simp
  next
    fix h m f hs ms e
    assume h: "iadd_item (hits self) i h = Inr hs"
      and m: "iadd_item (misses self) i m = Inr ms"
      and s: "self' = self\<lparr>hits := hs, misses := ms\<rparr>"
    show ?thesis using iadd_item_frame [OF h] iadd_item_frame [OF m] s by simp
  next
    fix h m f hs ms fs
    assume h: "iadd_item (hits self) i h = Inr hs"
      and m: "iadd_item (misses self) i m = Inr ms"
      and f: "iadd_item (fas self) i f = Inr fs"
      and rec: "accumulate (self\<lparr>hits := hs, misses := ms, fas := fs\<rparr>) pred target (Suc i) rest
                = (self', r)"
    note ih = Cons.IH [OF rec]
    note fh = iadd_item_frame [OF h] and fm = iadd_item_frame [OF m]
      and ff = iadd_item_frame [OF f]
    have "length (hits self') = length (hits self) \<and> length (misses self') = length (misses self)
        \<and> length (fas self') = length (fas self)"
      using ih fh(1) fm(1) ff(1) by simp
    moreover have "\<forall>j<i. hits self' ! j = hits self ! j \<and> misses self' ! j = misses self ! j
                 \<and> fas self' ! j = fas self ! j"
      using ih fh(2) fm(2) ff(2) by simp
    moreover have "self' = self\<lparr>hits := hits self', misses := misses self', fas := fas self'\<rparr>"
      using ih by (cases self, cases self') simp
    ultimately show ?thesis by blast
  qed
qed






lemma compute_cases:
  assumes "compute self back pred target = (self', r)"
  shows "(preprocess_type self \<noteq> ''sevir'' \<and> self' = self \<and> r = Inl NotImplementedError)
       \<or> (preprocess_type self = ''sevir'' \<and>
            (\<exists>e. accumulate self (back pred) (back target) 0 (threshold_list self) = (self', e)
                \<and> r = (case e of Some err \<Rightarrow> Inl err | None \<Rightarrow> aggregate self')))"
  using assms
  by (auto simp: compute_def preprocess_def split: if_splits prod.splits option.splits)



lemma compute_mode0_example:
  "compute \<lparr>layout = ''NT'', preprocess_type = ''sevir'', threshold_list = [16],
      metrics_list = [''csi''], eps = 1 / 10000, mode = ''0'', seq_len = None,
      hits = [0], misses = [0], fas = [0], keep_seq_len_dim = False\<rparr>
     (\<lambda>x. x) \<lparr>shape = [2, 2], data = [Fin 20, Fin 3, Fin 2, Fin 40]\<rparr>
     \<lparr>shape = [2, 2], data = [Fin 20, Fin 30, Fin 2, Fin 3]\<rparr>
   = (\<lparr>layout = ''NT'', preprocess_type = ''sevir'', threshold_list = [16],
      metrics_list = [''csi''], eps = 1 / 10000, mode = ''0'', seq_len = None,
      hits = [1], misses = [1], fas = [1], keep_seq_len_dim = False\<rparr>,
      Inr (Map.empty(Thr 16 \<mapsto> Map.empty(''csi'' \<mapsto> Scalar (Some (10000 / 30001))),
                     Avg \<mapsto> Map.empty(''csi'' \<mapsto> Scalar (Some (10000 / 30001))))))"
  by (simp add: compute_def preprocess_def calc_mode0_example iadd_item_def f32_add_0_1
      aggregate_mode0_example)




lemma compute_lengths:
  assumes "compute self back pred target = (self', r)"
  shows "length (hits self') = length (hits self)"
    and "length (misses self') = length (misses self)"
    and "length (fas self') = length (fas self)"
  using compute_cases [OF assms] by (auto dest: accumulate_frame)

text \<open>
  C8. The claim has \<open>compute\<close> return the dictionary of scores for every valid object.
  In mode "1" with a batch of two time steps the batch counts have shape (2,), the
  assignment \<^verbatim>\<open>self.hits[0] += hits\<close> into the rank-one state raises, and no
  dictionary is returned.
\<close>

theorem compute_mode1_raises:
  "init ''NT'' ''1'' (Some 2) ''sevir'' [16] [''csi''] (1 / 10000)
     = Inr \<lparr>layout = ''NT'', preprocess_type = ''sevir'', threshold_list = [16],
            metrics_list = [''csi''], eps = 1 / 10000, mode = ''1'', seq_len = Some 2,
            hits = [0], misses = [0], fas = [0], keep_seq_len_dim = True\<rparr>
   \<and> compute \<lparr>layout = ''NT'', preprocess_type = ''sevir'', threshold_list = [16],
         metrics_list = [''csi''], eps = 1 / 10000, mode = ''1'', seq_len = Some 2,
         hits = [0], misses = [0], fas = [0], keep_seq_len_dim = True\<rparr>
        (\<lambda>x. x) \<lparr>shape = [2, 2], data = [Fin 20, Fin 3, NaN, Fin 30]\<rparr>
        \<lparr>shape = [2, 2], data = [Fin 20, Fin 30, Fin 20, Fin 3]\<rparr>
     = (\<lparr>layout = ''NT'', preprocess_type = ''sevir'', threshold_list = [16],
         metrics_list = [''csi''], eps = 1 / 10000, mode = ''1'', seq_len = Some 2,
         hits = [0], misses = [0], fas = [0], keep_seq_len_dim = True\<rparr>,
        Inl ValueError)"
  by (simp add: init_def Let_def compute_def preprocess_def calc_example iadd_item_def)

text \<open>
  The shape of the stored counts in every mode: the constructor allocates hits, misses
  and false alarms with shape (num_thresholds,), and no \<open>compute\<close> call, returning or
  raising, changes that shape.
\<close>

theorem counts_shape_is_num_thresholds:
  "(init lay md sl ptype thresholds metrics epsilon = Inr self \<longrightarrow>
      vshape (hits self) = [length thresholds] \<and> vshape (misses self) = [length thresholds]
    \<and> vshape (fas self) = [length thresholds])
   \<and> (compute self back pred target = (self', r) \<longrightarrow>
      vshape (hits self') = vshape (hits self) \<and> vshape (misses self') = vshape (misses self)
    \<and> vshape (fas self') = vshape (fas self))"
  by (auto simp: vshape_def dest: init_fields compute_lengths)

theorem counts_shape_is_num_thresholds_witness:
  "init ''NT'' ''1'' (Some 2) ''sevir'' [16] [''csi''] (1 / 10000)
     = Inr \<lparr>layout = ''NT'', preprocess_type = ''sevir'', threshold_list = [16],
            metrics_list = [''csi''], eps = 1 / 10000, mode = ''1'', seq_len = Some 2,
            hits = [0], misses = [0], fas = [0], keep_seq_len_dim = True\<rparr>
   \<and> vshape (hits \<lparr>layout = ''NT'', preprocess_type = ''sevir'', threshold_list = [16],
            metrics_list = [''csi''], eps = 1 / 10000, mode = ''1'', seq_len = Some 2,
            hits = [0], misses = [0], fas = [0], keep_seq_len_dim = True\<rparr>) = [length [16 :: int]]
   \<and> compute \<lparr>layout = ''NT'', preprocess_type = ''sevir'', threshold_list = [16],
      metrics_list = [''csi''], eps = 1 / 10000, mode = ''0'', seq_len = None,
      hits = [0], misses = [0], fas = [0], keep_seq_len_dim = False\<rparr>
     (\<lambda>x. x) \<lparr>shape = [2, 2], data = [Fin 20, Fin 3, Fin 2, Fin 40]\<rparr>
     \<lparr>shape = [2, 2], data = [Fin 20, Fin 30, Fin 2, Fin 3]\<rparr>
   = (\<lparr>layout = ''NT'', preprocess_type = ''sevir'', threshold_list = [16],
      metrics_list = [''csi''], eps = 1 / 10000, mode = ''0'', seq_len = None,
      hits = [1], misses = [1], fas = [1], keep_seq_len_dim = False\<rparr>,
      Inr (Map.empty(Thr 16 \<mapsto> Map.empty(''csi'' \<mapsto> Scalar (Some (10000 / 30001))),
                     Avg \<mapsto> Map.empty(''csi'' \<mapsto> Scalar (Some (10000 / 30001))))))
   \<and> vshape [1 :: real] = vshape [0 :: real]"
proof -
  have i: "init ''NT'' ''1'' (Some 2) ''sevir'' [16] [''csi''] (1 / 10000)
     = Inr \<lparr>layout = ''NT'', preprocess_type = ''sevir'', threshold_list = [16],
            metrics_list = [''csi''], eps = 1 / 10000, mode = ''1'', seq_len = Some 2,
            hits = [0], misses = [0], fas = [0], keep_seq_len_dim = True\<rparr>"
    by (simp add: init_def Let_def)
  from counts_shape_is_num_thresholds [where lay = "''NT''" and md = "''1''" and sl = "Some 2"
      and ptype = "''sevir''" and thresholds = "[16]" and metrics = "[''csi'']"
      and epsilon = "1 / 10000", unfolded i] compute_mode0_example i
  show ?thesis by (simp add: vshape_def)
qed

section \<open>The FNO network: properties\<close>

lemma apply_blocks_foldl:
  "apply_blocks blocks n index x = foldl blocks x [index..<n]"
proof (induction blocks n index x rule: apply_blocks.induct)
  case (1 blocks n index x)
  show ?case
  proof (cases "index < n")
    case True
    with 1 show ?thesis by (subst apply_blocks.simps) (simp add: upt_rec [of index n])
  next
    case False
    then show ?thesis by (subst apply_blocks.simps) simp
  qed
qed

text \<open>
  C9. \<open>forward\<close> applies the lifting block to the concatenated input, pads the
  domain only when a domain padding is configured, applies the Fourier blocks with the
  indices 0 to \<open>n_layers - 1\<close> in that order, unpads only when a domain padding is
  configured, applies the projection block, and returns a dictionary whose single key
  is the first output key. The network has at least one output key.
\<close>

theorem forward_pipeline:
  assumes "output_keys self = k # ks"
  shows "(domain_padding self = None \<longrightarrow>
            forward self x =
              Inr (Map.empty(k \<mapsto>
                projection self
                  (foldl (fno_blocks self)
                     (lifting self (concat_to_tensor self x (input_keys self)))
                     [0..<nat (n_layers self)]))))
       \<and> (\<forall>pad unpad. domain_padding self = Some (pad, unpad) \<longrightarrow>
            forward self x =
              Inr (Map.empty(k \<mapsto>
                projection self
                  (unpad
                     (foldl (fno_blocks self)
                        (pad (lifting self (concat_to_tensor self x (input_keys self))))
                        [0..<nat (n_layers self)])))))
       \<and> (\<exists>out. forward self x = Inr out \<and> dom out = {hd (output_keys self)})"
proof (intro conjI allI impI)
  assume "domain_padding self = None"
  then show "forward self x =
      Inr (Map.empty(k \<mapsto>
        projection self
          (foldl (fno_blocks self)
             (lifting self (concat_to_tensor self x (input_keys self)))
             [0..<nat (n_layers self)])))"
    using assms by (simp add: forward_def Let_def apply_blocks_foldl)
next
  fix pad unpad
  assume "domain_padding self = Some (pad, unpad)"
  then show "forward self x =
      Inr (Map.empty(k \<mapsto>
        projection self
          (unpad
             (foldl (fno_blocks self)
                (pad (lifting self (concat_to_tensor self x (input_keys self))))
                [0..<nat (n_layers self)]))))"
    using assms by (simp add: forward_def Let_def apply_blocks_foldl)
next
  show "\<exists>out. forward self x = Inr out \<and> dom out = {hd (output_keys self)}"
    using assms by (simp add: forward_def Let_def)
qed

theorem forward_pipeline_witness:
  "output_keys \<lparr>input_keys = [''input''], output_keys = [''output''], n_layers = 2,
       lifting = (\<lambda>t. t @ [''lifting'']),
       domain_padding = Some (\<lambda>t. t @ [''pad''], \<lambda>t. t @ [''unpad'']),
       fno_blocks = (\<lambda>t i. t @ [''block'' @ replicate i CHR ''+'']),
       projection = (\<lambda>t. t @ [''projection'']),
       concat_to_tensor = (\<lambda>x keys. x)\<rparr> = [''output'']
   \<and> forward \<lparr>input_keys = [''input''], output_keys = [''output''], n_layers = 2,
       lifting = (\<lambda>t. t @ [''lifting'']),
       domain_padding = Some (\<lambda>t. t @ [''pad''], \<lambda>t. t @ [''unpad'']),
       fno_blocks = (\<lambda>t i. t @ [''block'' @ replicate i CHR ''+'']),
       projection = (\<lambda>t. t @ [''projection'']),
       concat_to_tensor = (\<lambda>x keys. x)\<rparr> []
     = Inr (Map.empty(''output'' \<mapsto>
         [''lifting'', ''pad'', ''block'', ''block+'', ''unpad'', ''projection'']))"
proof -
  let ?net = "\<lparr>input_keys = [''input''], output_keys = [''output''], n_layers = 2,
       lifting = (\<lambda>t. t @ [''lifting'']),
       domain_padding = Some (\<lambda>t. t @ [''pad''], \<lambda>t. t @ [''unpad'']),
       fno_blocks = (\<lambda>t i. t @ [''block'' @ replicate i CHR ''+'']),
       projection = (\<lambda>t. t @ [''projection'']),
       concat_to_tensor = (\<lambda>x keys. x)\<rparr> :: (string list, string list) fnonet"
  have k: "output_keys ?net = ''output'' # []" by simp
  have n: "[0..<2] = [0, Suc 0]" by (simp add: upt_rec)
  from forward_pipeline [OF k, of "[]"] show ?thesis
    by (simp add: n)
qed

end
